theory Spec2Isabelle
  imports Main
begin

section \<open>Python values as \<^verbatim>\<open>json.load\<close> produces them\<close>

text \<open>
  A Python float is kept as a mantissa and a binary exponent (\<open>Finite m e\<close> stands for
  \<open>m * 2 ^ e\<close>) or as one of the special values the decoder accepts. The parsers never
  compute with a float; they only test its truth value and pass it on.
\<close>

datatype pyfloat = Finite int int | Infinite bool | NaN

text \<open>
  The value decoded from a JSON document: \<^verbatim>\<open>None\<close>, \<^verbatim>\<open>bool\<close>, \<^verbatim>\<open>int\<close>,
  \<^verbatim>\<open>float\<close>, \<^verbatim>\<open>str\<close>, \<^verbatim>\<open>list\<close> and \<^verbatim>\<open>dict\<close>. A dict is the list of its
  items in insertion order; a key is looked up from the front.
\<close>

datatype json =
    JNone
  | JBool bool
  | JInt int
  | JFloat pyfloat
  | JStr string
  | JList "json list"
  | JDict "(string \<times> json) list"

text \<open>
  The exceptions that leave a parser: those with which \<^verbatim>\<open>open\<close> refuses a path, those
  with which \<^verbatim>\<open>json.load\<close> refuses the content of a file, those of subscription,
  membership and iteration, and \<open>Raised\<close> for an exception of one of the collaborators
  that are called but defined elsewhere in the package.
\<close>

datatype error =
    FileNotFoundError
  | NotADirectoryError
  | IsADirectoryError
  | PermissionError
  | UnicodeDecodeError
  | JSONDecodeError
  | ValueError
  | RecursionError
  | KeyError string
  | TypeError
  | Raised string

definition and_then :: "error + 'a \<Rightarrow> ('a \<Rightarrow> error + 'b) \<Rightarrow> error + 'b" where
  "and_then m f = (case m of Inl e \<Rightarrow> Inl e | Inr x \<Rightarrow> f x)"

text \<open>Truth-value testing, as \<^verbatim>\<open>if x:\<close> does it.\<close>

fun py_bool :: "json \<Rightarrow> bool" where
  "py_bool JNone = False"
| "py_bool (JBool b) = b"
| "py_bool (JInt n) = (n \<noteq> 0)"
| "py_bool (JFloat (Finite m e)) = (m \<noteq> 0)"
| "py_bool (JFloat (Infinite s)) = True"
| "py_bool (JFloat NaN) = True"
| "py_bool (JStr s) = (s \<noteq> [])"
| "py_bool (JList xs) = (xs \<noteq> [])"
| "py_bool (JDict kvs) = (kvs \<noteq> [])"

text \<open>
  Subscription with a string key, \<^verbatim>\<open>x["k"]\<close>: a dict raises \<^verbatim>\<open>KeyError\<close> on
  a missing key, every other decoded value raises \<^verbatim>\<open>TypeError\<close>.
\<close>

fun py_getitem :: "json \<Rightarrow> string \<Rightarrow> error + json" where
  "py_getitem (JDict kvs) k =
     (case map_of kvs k of None \<Rightarrow> Inl (KeyError k) | Some v \<Rightarrow> Inr v)"
| "py_getitem JNone k = Inl TypeError"
| "py_getitem (JBool b) k = Inl TypeError"
| "py_getitem (JInt n) k = Inl TypeError"
| "py_getitem (JFloat f) k = Inl TypeError"
| "py_getitem (JStr s) k = Inl TypeError"
| "py_getitem (JList xs) k = Inl TypeError"

fun starts_with :: "string \<Rightarrow> string \<Rightarrow> bool" where
  "starts_with s [] = True"
| "starts_with [] (c # cs) = False"
| "starts_with (x # xs) (c # cs) = (x = c \<and> starts_with xs cs)"

fun find_substring :: "string \<Rightarrow> string \<Rightarrow> bool" where
  "find_substring [] sub = (sub = [])"
| "find_substring (x # xs) sub = (starts_with (x # xs) sub \<or> find_substring xs sub)"

text \<open>
  Membership of a string, \<^verbatim>\<open>"k" in x\<close>: a key of a dict, an element of a list,
  a substring of a string; the other values are not containers.
\<close>

fun py_contains :: "json \<Rightarrow> string \<Rightarrow> error + bool" where
  "py_contains (JDict kvs) k = Inr (map_of kvs k \<noteq> None)"
| "py_contains (JList xs) k = Inr (JStr k \<in> set xs)"
| "py_contains (JStr s) k = Inr (find_substring s k)"
| "py_contains JNone k = Inl TypeError"
| "py_contains (JBool b) k = Inl TypeError"
| "py_contains (JInt n) k = Inl TypeError"
| "py_contains (JFloat f) k = Inl TypeError"

text \<open>
  Iteration, \<^verbatim>\<open>for x in v\<close>: the elements of a list, the keys of a dict, the
  characters of a string; the other values are not iterable.
\<close>

fun py_iter :: "json \<Rightarrow> error + json list" where
  "py_iter (JList xs) = Inr xs"
| "py_iter (JDict kvs) = Inr (map (\<lambda>kv. JStr (fst kv)) kvs)"
| "py_iter (JStr s) = Inr (map (\<lambda>c. JStr [c]) s)"
| "py_iter JNone = Inl TypeError"
| "py_iter (JBool b) = Inl TypeError"
| "py_iter (JInt n) = Inl TypeError"
| "py_iter (JFloat f) = Inl TypeError"

text \<open>
  Membership in the allow-list, \<^verbatim>\<open>annotated_class in classes\<close>, for an allow-list
  that is a list of strings as the two defaults are: an element compares equal to the
  value exactly when the value is that string.
\<close>

definition in_classes :: "json \<Rightarrow> string list \<Rightarrow> bool" where
  "in_classes annotated_class classes = (annotated_class \<in> set (map JStr classes))"

section \<open>The files\<close>

text \<open>
  The content of a regular file, as \<^verbatim>\<open>json.load\<close> meets it: bytes that are not text
  in the encoding of the process, text that is not a JSON document, a document with an
  integer literal longer than the interpreter converts, a document nested deeper than
  the interpreter's stack allows, content on which the decoder raises some other
  exception, or a document with its decoded value.
\<close>

datatype file_content =
    Not_Text
  | Not_Json
  | Integer_Too_Long
  | Nested_Too_Deep
  | Load_Raises error
  | Json json

text \<open>
  What a path leads to, as \<^verbatim>\<open>open\<close> meets it: no entry of that name, a path that
  passes through an entry that is not a directory, a directory, a file that may not be
  read, a path on which \<^verbatim>\<open>open\<close> raises some other exception (an embedded null
  character, a name that is too long, a loop of links), or a regular file.
\<close>

datatype path_state =
    No_Entry
  | Not_A_Directory
  | Directory
  | Permission_Denied
  | Open_Raises error
  | File file_content

type_synonym filesystem = "string \<Rightarrow> path_state"

text \<open>\<^verbatim>\<open>open(annotation_file, "r")\<close>: the exception for each refusal, or the file.\<close>

fun py_open :: "path_state \<Rightarrow> error + file_content" where
  "py_open No_Entry = Inl FileNotFoundError"
| "py_open Not_A_Directory = Inl NotADirectoryError"
| "py_open Directory = Inl IsADirectoryError"
| "py_open Permission_Denied = Inl PermissionError"
| "py_open (Open_Raises e) = Inl e"
| "py_open (File content) = Inr content"

text \<open>\<^verbatim>\<open>json.load(file)\<close>: the exception for each refusal, or the decoded value.\<close>

fun json_load :: "file_content \<Rightarrow> error + json" where
  "json_load Not_Text = Inl UnicodeDecodeError"
| "json_load Not_Json = Inl JSONDecodeError"
| "json_load Integer_Too_Long = Inl ValueError"
| "json_load Nested_Too_Deep = Inl RecursionError"
| "json_load (Load_Raises e) = Inl e"
| "json_load (Json annotation) = Inr annotation"

text \<open>
  The loader opens the file and decodes it; it catches nothing and checks nothing, so an
  exception of either step leaves it as it is and a decoded value is returned as it is.
\<close>

definition read_annotation_file :: "filesystem \<Rightarrow> string \<Rightarrow> error + json" where
  "read_annotation_file fs annotation_file =
     and_then (py_open (fs annotation_file)) (\<lambda>file. json_load file)"

section \<open>Object detection\<close>

text \<open>
  \<^verbatim>\<open>[ObjectAnnotation.from_dict(obj) for obj in annotation]\<close>; the constructor
  \<open>from_dict\<close> is a parameter, and an exception it raises ends the comprehension.
\<close>

fun from_dict_each :: "(json \<Rightarrow> error + 'o) \<Rightarrow> json list \<Rightarrow> error + 'o list" where
  "from_dict_each from_dict [] = Inr []"
| "from_dict_each from_dict (obj # rest) =
     (case from_dict obj of
        Inl e \<Rightarrow> Inl e
      | Inr a \<Rightarrow>
         (case from_dict_each from_dict rest of
            Inl e \<Rightarrow> Inl e
          | Inr as \<Rightarrow> Inr (a # as)))"

definition parse_object_detection_annotation ::
  "(json \<Rightarrow> error + 'o) \<Rightarrow> filesystem \<Rightarrow> string \<Rightarrow> error + 'o list" where
  "parse_object_detection_annotation from_dict fs annotation_path =
     and_then (read_annotation_file fs annotation_path) (\<lambda>annotation.
     and_then (py_iter annotation) (\<lambda>objs.
     from_dict_each from_dict objs))"

section \<open>Traffic signs\<close>

text \<open>
  Modelled from the spec: the class \<^verbatim>\<open>TrafficSignAnnotation\<close> and the enumeration
  \<^verbatim>\<open>Camera\<close> are declared in other modules of the package. The annotation is the
  structure of section 3 of the specification, one field for each keyword of the
  constructor call; the only camera the parser names is the front camera.
\<close>

record 'b TrafficSignAnnotation =
  bounding_box :: 'b
  traffic_sign_class :: json
  traffic_sign_idx :: int
  occlusion_ratio :: json
  annotation_uuid :: json
  electronic_sign :: json
  uuid :: json

datatype Camera = FRONT

text \<open>\<^verbatim>\<open>obj["properties"][k]\<close> and \<^verbatim>\<open>obj["geometry"]["coordinates"]\<close>.\<close>

definition property :: "json \<Rightarrow> string \<Rightarrow> error + json" where
  "property obj k = and_then (py_getitem obj ''properties'') (\<lambda>props. py_getitem props k)"

definition coordinates :: "json \<Rightarrow> error + json" where
  "coordinates obj = and_then (py_getitem obj ''geometry'') (\<lambda>g. py_getitem g ''coordinates'')"

text \<open>
  Lines 34 to 45: the box first, then the arguments of the constructor from left to right.
  The class label is read once for the field and once more for the index lookup, the
  identifier once for each of its two fields, as the source does.
\<close>

definition traffic_sign_annotation ::
  "(json \<Rightarrow> Camera \<Rightarrow> error + 'b) \<Rightarrow> (json \<Rightarrow> error + int) \<Rightarrow> json
     \<Rightarrow> error + 'b TrafficSignAnnotation" where
  "traffic_sign_annotation from_points get_class_idx annotated_object =
     and_then (coordinates annotated_object) (\<lambda>points.
     and_then (from_points points FRONT) (\<lambda>box.
     and_then (property annotated_object ''class'') (\<lambda>cls.
     and_then (property annotated_object ''class'') (\<lambda>label.
     and_then (get_class_idx label) (\<lambda>idx.
     and_then (property annotated_object ''occlusion_ratio'') (\<lambda>ratio.
     and_then (property annotated_object ''annotation_uuid'') (\<lambda>auuid.
     and_then (property annotated_object ''is_electronic'') (\<lambda>electronic.
     and_then (property annotated_object ''annotation_uuid'') (\<lambda>guuid.
     Inr \<lparr> bounding_box = box,
           traffic_sign_class = cls,
           traffic_sign_idx = idx,
           occlusion_ratio = ratio,
           annotation_uuid = auuid,
           electronic_sign = electronic,
           uuid = guuid \<rparr>)))))))))"

fun traffic_sign_loop ::
  "(json \<Rightarrow> Camera \<Rightarrow> error + 'b) \<Rightarrow> (json \<Rightarrow> error + int) \<Rightarrow> json list
     \<Rightarrow> 'b TrafficSignAnnotation list \<Rightarrow> error + 'b TrafficSignAnnotation list" where
  "traffic_sign_loop from_points get_class_idx [] annotated_objects = Inr annotated_objects"
| "traffic_sign_loop from_points get_class_idx (annotated_object # rest) annotated_objects =
     (case property annotated_object ''unclear'' of
        Inl e \<Rightarrow> Inl e
      | Inr unclear \<Rightarrow>
         if py_bool unclear
         then traffic_sign_loop from_points get_class_idx rest annotated_objects
         else
           (case traffic_sign_annotation from_points get_class_idx annotated_object of
              Inl e \<Rightarrow> Inl e
            | Inr a \<Rightarrow>
               traffic_sign_loop from_points get_class_idx rest (annotated_objects @ [a])))"

definition parse_traffic_sign_annotation ::
  "(json \<Rightarrow> Camera \<Rightarrow> error + 'b) \<Rightarrow> (json \<Rightarrow> error + int) \<Rightarrow> filesystem \<Rightarrow> string
     \<Rightarrow> error + 'b TrafficSignAnnotation list" where
  "parse_traffic_sign_annotation from_points get_class_idx fs annotation_path =
     and_then (read_annotation_file fs annotation_path) (\<lambda>annotation.
     and_then (py_iter annotation) (\<lambda>objs.
     traffic_sign_loop from_points get_class_idx objs []))"

section \<open>Lane markings and ego road\<close>

fun lane_markings_loop :: "string list \<Rightarrow> json list \<Rightarrow> json list \<Rightarrow> error + json list" where
  "lane_markings_loop classes [] polygons = Inr polygons"
| "lane_markings_loop classes (annotation # rest) polygons =
     (case py_getitem annotation ''properties'' of
        Inl e \<Rightarrow> Inl e
      | Inr props \<Rightarrow>
         (case py_contains props ''class'' of
            Inl e \<Rightarrow> Inl e
          | Inr has_class \<Rightarrow>
             if has_class
             then
               (case property annotation ''class'' of
                  Inl e \<Rightarrow> Inl e
                | Inr annotated_class \<Rightarrow>
                   if in_classes annotated_class classes
                   then
                     (case coordinates annotation of
                        Inl e \<Rightarrow> Inl e
                      | Inr polygon \<Rightarrow> lane_markings_loop classes rest (polygons @ [polygon]))
                   else lane_markings_loop classes rest polygons)
             else lane_markings_loop classes rest polygons))"

definition parse_lane_markings_annotation ::
  "filesystem \<Rightarrow> string \<Rightarrow> string list \<Rightarrow> error + json list" where
  "parse_lane_markings_annotation fs annotation_path classes =
     and_then (read_annotation_file fs annotation_path) (\<lambda>annotations.
     and_then (py_iter annotations) (\<lambda>objs.
     lane_markings_loop classes objs []))"

fun ego_road_loop :: "string list \<Rightarrow> json list \<Rightarrow> json list \<Rightarrow> error + json list" where
  "ego_road_loop classes [] polygons = Inr polygons"
| "ego_road_loop classes (annotation # rest) polygons =
     (case py_getitem annotation ''properties'' of
        Inl e \<Rightarrow> Inl e
      | Inr props \<Rightarrow>
         (case py_contains props ''class'' of
            Inl e \<Rightarrow> Inl e
          | Inr has_class \<Rightarrow>
             if has_class
             then
               (case property annotation ''class'' of
                  Inl e \<Rightarrow> Inl e
                | Inr annotated_class \<Rightarrow>
                   if in_classes annotated_class classes
                   then
                     (case coordinates annotation of
                        Inl e \<Rightarrow> Inl e
                      | Inr polygon \<Rightarrow> ego_road_loop classes rest (polygons @ [polygon]))
                   else ego_road_loop classes rest polygons)
             else ego_road_loop classes rest polygons))"

definition parse_ego_road_annotation ::
  "filesystem \<Rightarrow> string \<Rightarrow> string list \<Rightarrow> error + json list" where
  "parse_ego_road_annotation fs annotation_path classes =
     and_then (read_annotation_file fs annotation_path) (\<lambda>annotations.
     and_then (py_iter annotations) (\<lambda>objs.
     ego_road_loop classes objs []))"

section \<open>Default arguments\<close>

text \<open>
  The defaults \<^verbatim>\<open>classes=["lm_dashed", "lm_solid"]\<close> and \<^verbatim>\<open>classes=["EgoRoad_Road"]\<close>
  are list objects created once, when the \<^verbatim>\<open>def\<close> statement runs, and kept by the
  function object. A call that omits \<^verbatim>\<open>classes\<close> binds the parameter to that object;
  a call that passes a list binds it to the list passed. The store gives the contents of
  the list object behind a reference.
\<close>

type_synonym ref = nat

record runtime =
  files :: filesystem
  heap :: "ref \<Rightarrow> string list"

definition lane_markings_defaults :: ref where
  "lane_markings_defaults = 0"

definition ego_road_defaults :: ref where
  "ego_road_defaults = 1"

definition module_heap :: "ref \<Rightarrow> string list" where
  "module_heap =
     (\<lambda>r. [])(lane_markings_defaults := [''lm_dashed'', ''lm_solid''],
              ego_road_defaults := [''EgoRoad_Road''])"

definition bind_classes :: "ref \<Rightarrow> ref option \<Rightarrow> ref" where
  "bind_classes default_list arg = (case arg of None \<Rightarrow> default_list | Some r \<Rightarrow> r)"

definition call_parse_lane_markings_annotation ::
  "runtime \<Rightarrow> string \<Rightarrow> ref option \<Rightarrow> error + json list" where
  "call_parse_lane_markings_annotation rt annotation_path arg =
     parse_lane_markings_annotation (files rt) annotation_path
       (heap rt (bind_classes lane_markings_defaults arg))"

definition call_parse_ego_road_annotation ::
  "runtime \<Rightarrow> string \<Rightarrow> ref option \<Rightarrow> error + json list" where
  "call_parse_ego_road_annotation rt annotation_path arg =
     parse_ego_road_annotation (files rt) annotation_path
       (heap rt (bind_classes ego_road_defaults arg))"

text \<open>\<^verbatim>\<open>xs.append(x)\<close> on the list object behind a reference.\<close>

definition list_append :: "ref \<Rightarrow> string \<Rightarrow> 'a runtime_scheme \<Rightarrow> 'a runtime_scheme" where
  "list_append r x rt = rt\<lparr>heap := (heap rt)(r := heap rt r @ [x])\<rparr>"

section \<open>Calls in a running process\<close>
















section \<open>The registry\<close>

text \<open>
  Modelled from the spec: the enumeration \<^verbatim>\<open>AnnotationProject\<close> is declared in
  \<^verbatim>\<open>zod.constants\<close>; section 3 of the specification gives its four members. A value
  of the registry is a reference to one of the four functions of this module, and the
  registry is the dict display of line 73, entry by entry.
\<close>

datatype AnnotationProject = LANE_MARKINGS | EGO_ROAD | OBJECT_DETECTION | TRAFFIC_SIGNS

datatype parser =
    Parse_lane_markings_annotation
  | Parse_ego_road_annotation
  | Parse_object_detection_annotation
  | Parse_traffic_sign_annotation

definition ANNOTATION_PARSERS :: "(AnnotationProject \<times> parser) list" where
  "ANNOTATION_PARSERS =
     [(LANE_MARKINGS, Parse_lane_markings_annotation),
      (EGO_ROAD, Parse_ego_road_annotation),
      (OBJECT_DETECTION, Parse_object_detection_annotation),
      (TRAFFIC_SIGNS, Parse_traffic_sign_annotation)]"

section \<open>Notions used in the statements\<close>





text \<open>A traffic-sign record is kept when its \<^verbatim>\<open>unclear\<close> property reads as false.\<close>

definition kept :: "json \<Rightarrow> bool" where
  "kept r = (case property r ''unclear'' of Inl e \<Rightarrow> False | Inr u \<Rightarrow> \<not> py_bool u)"

text \<open>A traffic-sign record is skipped when its \<^verbatim>\<open>unclear\<close> property reads as true.\<close>

definition skipped :: "json \<Rightarrow> bool" where
  "skipped r = (case property r ''unclear'' of Inl e \<Rightarrow> False | Inr u \<Rightarrow> py_bool u)"

text \<open>A polygon record is selected when it has a class label and the label is allowed.\<close>

definition selected :: "string list \<Rightarrow> json \<Rightarrow> bool" where
  "selected classes r =
     (case property r ''class'' of Inl e \<Rightarrow> False | Inr label \<Rightarrow> in_classes label classes)"

section \<open>Sample inputs\<close>

text \<open>
  The record of the scenarios of section 8 of the specification, with the value of
  \<^verbatim>\<open>unclear\<close> left open, and collaborators that accept it.
\<close>

definition sign_record :: "json \<Rightarrow> json" where
  "sign_record unclear =
     JDict [(''properties'',
              JDict [(''unclear'', unclear),
                     (''class'', JStr ''stop''),
                     (''occlusion_ratio'', JFloat (Finite 3602879701896397 (- 55))),
                     (''annotation_uuid'', JStr ''a1''),
                     (''is_electronic'', JBool False)]),
            (''geometry'', JDict [(''coordinates'', JList [JList [JInt 0, JInt 0]])])]"

definition bare_record :: "json \<Rightarrow> json" where
  "bare_record unclear = JDict [(''properties'', JDict [(''unclear'', unclear)])]"

definition polygon_record :: "(string \<times> json) list \<Rightarrow> int \<Rightarrow> json" where
  "polygon_record props n =
     JDict [(''properties'', JDict props),
            (''geometry'', JDict [(''coordinates'', JList [JList [JInt n, JInt n]])])]"

definition lane_records :: "json list" where
  "lane_records =
     [polygon_record [(''class'', JStr ''lm_dashed'')] 1,
      polygon_record [] 2,
      polygon_record [(''class'', JStr ''other'')] 3,
      polygon_record [(''class'', JStr ''EgoRoad_Road'')] 4,
      polygon_record [(''class'', JStr ''lm_solid'')] 5]"

definition sample_files :: filesystem where
  "sample_files =
     (\<lambda>p. No_Entry)(''clear.json'' := File (Json (JList [sign_record (JBool False)])),
              ''unclear.json'' := File (Json (JList [sign_record (JBool True)])),
              ''text.json'' := File (Json (JList [sign_record (JStr ''false'')])),
              ''bare.json'' := File (Json (JList [bare_record (JBool True)])),
              ''lanes.json'' := File (Json (JList lane_records)),
              ''object.json'' := File (Json (sign_record (JBool False))),
              ''broken.json'' := File Not_Json,
              ''binary.json'' := File Not_Text,
              ''lanes.json/x'' := Not_A_Directory,
              ''frames'' := Directory)"

definition box_of_points :: "json \<Rightarrow> Camera \<Rightarrow> error + json" where
  "box_of_points points camera = Inr points"

definition stop_index :: "json \<Rightarrow> error + int" where
  "stop_index label = (if label = JStr ''stop'' then Inr 7 else Inl (Raised ''UnknownClass''))"

definition always_raises :: "json \<Rightarrow> Camera \<Rightarrow> error + json" where
  "always_raises points camera = Inl (Raised ''Box2D'')"

definition sample_runtime :: runtime where
  "sample_runtime = \<lparr> files = sample_files, heap = module_heap \<rparr>"


section \<open>Basic facts\<close>

lemma and_then_Inl [simp]: "and_then (Inl e) f = Inl e"
  by (simp add: and_then_def)

lemma and_then_Inr [simp]: "and_then (Inr x) f = f x"
  by (simp add: and_then_def)

lemma and_then_eq_Inr: "and_then m f = Inr y \<longleftrightarrow> (\<exists>x. m = Inr x \<and> f x = Inr y)"
  by (cases m) simp_all

lemma py_open_eq_Inr: "py_open st = Inr content \<longleftrightarrow> st = File content"
  by (cases st) simp_all

lemma json_load_eq_Inr: "json_load content = Inr v \<longleftrightarrow> content = Json v"
  by (cases content) simp_all

lemma read_annotation_file_eq_Inr:
  "read_annotation_file fs p = Inr v \<longleftrightarrow> fs p = File (Json v)"
  by (simp add: read_annotation_file_def and_then_eq_Inr py_open_eq_Inr json_load_eq_Inr)

section \<open>The file loader\<close>




section \<open>The object-detection parser\<close>

lemma from_dict_each_eq_Inr:
  "from_dict_each from_dict objs = Inr as \<longleftrightarrow>
     list_all2 (\<lambda>obj a. from_dict obj = Inr a) objs as"
proof (induction objs arbitrary: as)
  case Nil
  show ?case by auto
next
  case (Cons obj rest)
  show ?case
  proof (cases "from_dict obj")
    case (Inl e)
    then show ?thesis by (auto simp: list_all2_Cons1)
  next
    case (Inr a)
    show ?thesis
    proof (cases "from_dict_each from_dict rest")
      case (Inl e)
      with Inr Cons.IH show ?thesis
        by (auto simp: list_all2_Cons1)
    next
      case inner: (Inr bs)
      with Inr Cons.IH show ?thesis
        by (auto simp: list_all2_Cons1)
    qed
  qed
qed

text \<open>
  Claim C2. On a file whose top-level value is an array of records that the constructor
  accepts, the parser returns a list as long as the array, and the element at every
  position is the constructor's result for the record at that position: no record is
  filtered out and the order is kept.
\<close>

theorem parse_object_detection_annotation_every_record:
  assumes content: "fs annotation_path = File (Json (JList records))"
    and valid: "\<forall>obj \<in> set records. \<exists>a. from_dict obj = Inr a"
  shows "\<exists>as. parse_object_detection_annotation from_dict fs annotation_path = Inr as \<and>
           length as = length records \<and>
           (\<forall>i < length records. from_dict (records ! i) = Inr (as ! i))"
proof -
  from valid have "\<exists>as. list_all2 (\<lambda>obj a. from_dict obj = Inr a) records as"
  proof (induction records)
    case Nil
    show ?case by simp
  next
    case (Cons obj rest)
    then obtain a bs where "from_dict obj = Inr a"
      and "list_all2 (\<lambda>obj a. from_dict obj = Inr a) rest bs"
      by auto
    then have "list_all2 (\<lambda>obj a. from_dict obj = Inr a) (obj # rest) (a # bs)"
      by simp
    then show ?case ..
  qed
  then obtain as where as: "list_all2 (\<lambda>obj a. from_dict obj = Inr a) records as" ..
  then have "from_dict_each from_dict records = Inr as"
    by (simp add: from_dict_each_eq_Inr)
  with content have "parse_object_detection_annotation from_dict fs annotation_path = Inr as"
    by (simp add: parse_object_detection_annotation_def read_annotation_file_def)
  moreover from as have "length as = length records"
    by (simp add: list_all2_lengthD)
  moreover from as have "\<forall>i < length records. from_dict (records ! i) = Inr (as ! i)"
    by (simp add: list_all2_conv_all_nth)
  ultimately show ?thesis by blast
qed

theorem parse_object_detection_annotation_every_record_witness:
  "\<exists>as. parse_object_detection_annotation Inr sample_files ''lanes.json'' = Inr as \<and>
     length as = 5 \<and> as ! 0 = polygon_record [(''class'', JStr ''lm_dashed'')] 1 \<and>
     as ! 4 = polygon_record [(''class'', JStr ''lm_solid'')] 5"
proof -
  have content: "sample_files ''lanes.json'' = File (Json (JList lane_records))"
    by (simp add: sample_files_def)
  have valid: "\<forall>obj \<in> set lane_records. \<exists>a. (Inr obj :: error + json) = Inr a"
    by simp
  from parse_object_detection_annotation_every_record [of sample_files "''lanes.json''"
      lane_records Inr, OF content valid]
  obtain as where parsed:
      "parse_object_detection_annotation Inr sample_files ''lanes.json'' = Inr as"
    and len: "length as = length lane_records"
    and each: "\<forall>i < length lane_records. (Inr (lane_records ! i) :: error + json) = Inr (as ! i)"
    by blast
  have five: "length lane_records = 5"
    by (simp add: lane_records_def)
  from each five have "lane_records ! 0 = as ! 0" and "lane_records ! 4 = as ! 4"
    by simp_all
  then have "as ! 0 = polygon_record [(''class'', JStr ''lm_dashed'')] 1"
    and "as ! 4 = polygon_record [(''class'', JStr ''lm_solid'')] 5"
    by (simp_all add: lane_records_def)
  with parsed len five show ?thesis by auto
qed

section \<open>The polygon parsers\<close>

lemma ego_road_loop_eq:
  "ego_road_loop classes objs polygons = lane_markings_loop classes objs polygons"
  by (induction objs arbitrary: polygons) (simp_all split: sum.splits)

text \<open>
  Claim C6. With the same path and the same explicitly supplied allow-list, the
  lane-markings parser and the ego-road parser return the same outcome, the same polygons
  or the same error; they differ only in the default they bind when the argument is left
  out.
\<close>

theorem lane_markings_ego_road_same_algorithm:
  "parse_lane_markings_annotation fs annotation_path classes =
     parse_ego_road_annotation fs annotation_path classes \<and>
   call_parse_lane_markings_annotation rt annotation_path (Some r) =
     call_parse_ego_road_annotation rt annotation_path (Some r)"
  by (simp add: parse_lane_markings_annotation_def parse_ego_road_annotation_def
      call_parse_lane_markings_annotation_def call_parse_ego_road_annotation_def
      bind_classes_def ego_road_loop_eq)

section \<open>The registry, checked\<close>

text \<open>
  Claim C8. The registry has four entries, its keys are pairwise different and are the
  four project kinds, and each kind is mapped to the parser of that project.
\<close>

theorem ANNOTATION_PARSERS_one_entry_per_kind:
  "distinct (map fst ANNOTATION_PARSERS) \<and>
   set (map fst ANNOTATION_PARSERS) =
     {LANE_MARKINGS, EGO_ROAD, OBJECT_DETECTION, TRAFFIC_SIGNS} \<and>
   length ANNOTATION_PARSERS = 4 \<and>
   map_of ANNOTATION_PARSERS LANE_MARKINGS = Some Parse_lane_markings_annotation \<and>
   map_of ANNOTATION_PARSERS EGO_ROAD = Some Parse_ego_road_annotation \<and>
   map_of ANNOTATION_PARSERS OBJECT_DETECTION = Some Parse_object_detection_annotation \<and>
   map_of ANNOTATION_PARSERS TRAFFIC_SIGNS = Some Parse_traffic_sign_annotation"
  by (simp add: ANNOTATION_PARSERS_def)

section \<open>The traffic-sign parser\<close>

lemma traffic_sign_loop_eq_Inr:
  "traffic_sign_loop fp gi rs acc = Inr out \<longleftrightarrow>
     (\<forall>r \<in> set rs. \<exists>u. property r ''unclear'' = Inr u) \<and>
     (\<exists>new. out = acc @ new \<and>
        list_all2 (\<lambda>r a. traffic_sign_annotation fp gi r = Inr a) (filter kept rs) new)"
proof (induction rs arbitrary: acc)
  case Nil
  show ?case by auto
next
  case (Cons r rest)
  show ?case
  proof (cases "property r ''unclear''")
    case (Inl e)
    then show ?thesis by simp
  next
    case (Inr u)
    show ?thesis
    proof (cases "py_bool u")
      case True
      with Inr have "\<not> kept r" by (simp add: kept_def)
      with Inr True Cons.IH [of acc] show ?thesis by simp
    next
      case False
      with Inr have k: "kept r" by (simp add: kept_def)
      show ?thesis
      proof (cases "traffic_sign_annotation fp gi r")
        case (Inl e)
        with Inr False k show ?thesis by (simp add: list_all2_Cons1)
      next
        case built: (Inr a)
        with Inr False k Cons.IH [of "acc @ [a]"] show ?thesis
          by (auto simp: list_all2_Cons1)
      qed
    qed
  qed
qed

lemma traffic_sign_annotation_fields:
  assumes "traffic_sign_annotation fp gi r = Inr a"
  shows "property r ''class'' = Inr (traffic_sign_class a)"
    and "gi (traffic_sign_class a) = Inr (traffic_sign_idx a)"
    and "property r ''annotation_uuid'' = Inr (annotation_uuid a)"
    and "property r ''annotation_uuid'' = Inr (uuid a)"
    and "property r ''occlusion_ratio'' = Inr (occlusion_ratio a)"
    and "property r ''is_electronic'' = Inr (electronic_sign a)"
    and "\<exists>points. coordinates r = Inr points \<and> fp points FRONT = Inr (bounding_box a)"
    and "uuid a = annotation_uuid a"
  using assms by (auto simp: traffic_sign_annotation_def and_then_eq_Inr)

lemma parse_traffic_sign_annotation_eq_Inr:
  "parse_traffic_sign_annotation fp gi fs p = Inr out \<longleftrightarrow>
     (\<exists>v rs. fs p = File (Json v) \<and> py_iter v = Inr rs \<and>
        (\<forall>r \<in> set rs. \<exists>u. property r ''unclear'' = Inr u) \<and>
        list_all2 (\<lambda>r a. traffic_sign_annotation fp gi r = Inr a) (filter kept rs) out)"
  by (simp add: parse_traffic_sign_annotation_def and_then_eq_Inr read_annotation_file_eq_Inr
      traffic_sign_loop_eq_Inr)

lemma traffic_sign_loop_skipped:
  "traffic_sign_loop fp gi (filter (\<lambda>r. \<not> skipped r) rs) acc = traffic_sign_loop fp gi rs acc"
proof (induction rs arbitrary: acc)
  case Nil
  show ?case by simp
next
  case (Cons r rest)
  show ?case
  proof (cases "property r ''unclear''")
    case (Inl e)
    then show ?thesis by (simp add: skipped_def)
  next
    case (Inr u)
    with Cons.IH show ?thesis
      by (simp add: skipped_def split: sum.splits)
  qed
qed


lemma sample_clear:
  "parse_traffic_sign_annotation box_of_points stop_index sample_files ''clear.json'' =
     Inr [\<lparr> bounding_box = JList [JList [JInt 0, JInt 0]],
             traffic_sign_class = JStr ''stop'',
             traffic_sign_idx = 7,
             occlusion_ratio = JFloat (Finite 3602879701896397 (- 55)),
             annotation_uuid = JStr ''a1'',
             electronic_sign = JBool False,
             uuid = JStr ''a1'' \<rparr>]"
  by (simp add: parse_traffic_sign_annotation_def read_annotation_file_def sample_files_def
      sign_record_def property_def coordinates_def traffic_sign_annotation_def
      box_of_points_def stop_index_def)

text \<open>
  Claim C1, as amended. The test on \<^verbatim>\<open>properties.unclear\<close> is Python's truth-value
  test, not a comparison with the boolean true: a record is skipped exactly when the
  value is true, a non-zero number, or a non-empty string, array or object. The parse
  succeeds exactly when every record has a readable \<^verbatim>\<open>unclear\<close> property and every
  record whose value tests false can be built; the output then holds, in order, one
  annotation for each record whose value tests false and nothing else. In particular no
  record whose value is the boolean true has an annotation in the output.
\<close>

theorem parse_traffic_sign_annotation_skips_truthy:
  assumes "fs annotation_path = File (Json v)" and "py_iter v = Inr rs"
  shows "(parse_traffic_sign_annotation from_points get_class_idx fs annotation_path = Inr out
            \<longleftrightarrow> (\<forall>r \<in> set rs. \<exists>u. property r ''unclear'' = Inr u) \<and>
                list_all2 (\<lambda>r a. traffic_sign_annotation from_points get_class_idx r = Inr a)
                  (filter kept rs) out) \<and>
         (\<forall>r. kept r \<longleftrightarrow> (\<exists>u. property r ''unclear'' = Inr u \<and> \<not> py_bool u)) \<and>
         (\<forall>r. property r ''unclear'' = Inr (JBool True) \<longrightarrow> \<not> kept r)"
proof -
  from assms have
    "parse_traffic_sign_annotation from_points get_class_idx fs annotation_path = Inr out
       \<longleftrightarrow> (\<forall>r \<in> set rs. \<exists>u. property r ''unclear'' = Inr u) \<and>
           list_all2 (\<lambda>r a. traffic_sign_annotation from_points get_class_idx r = Inr a)
             (filter kept rs) out"
    by (simp add: parse_traffic_sign_annotation_eq_Inr)
  moreover have "kept r \<longleftrightarrow> (\<exists>u. property r ''unclear'' = Inr u \<and> \<not> py_bool u)" for r
    by (cases "property r ''unclear''") (simp_all add: kept_def)
  moreover have "property r ''unclear'' = Inr (JBool True) \<longrightarrow> \<not> kept r" for r
    by (simp add: kept_def)
  ultimately show ?thesis by blast
qed

theorem parse_traffic_sign_annotation_skips_truthy_witness:
  "parse_traffic_sign_annotation box_of_points stop_index sample_files ''text.json'' = Inr [] \<and>
   parse_traffic_sign_annotation box_of_points stop_index sample_files ''unclear.json'' = Inr []"
proof -
  have textual: "sample_files ''text.json'' = File (Json (JList [sign_record (JStr ''false'')]))"
    by (simp add: sample_files_def)
  have unclear: "sample_files ''unclear.json'' = File (Json (JList [sign_record (JBool True)]))"
    by (simp add: sample_files_def)
  have readable: "property (sign_record u) ''unclear'' = Inr u" for u
    by (simp add: sign_record_def property_def)
  have 1: "\<forall>r \<in> set [sign_record (JStr ''false'')]. \<exists>u. property r ''unclear'' = Inr u"
    by (simp add: readable)
  have 2: "\<forall>r \<in> set [sign_record (JBool True)]. \<exists>u. property r ''unclear'' = Inr u"
    by (simp add: readable)
  have 3: "list_all2 (\<lambda>r a. traffic_sign_annotation box_of_points stop_index r = Inr a)
             (filter kept [sign_record (JStr ''false'')]) []"
    by (simp add: kept_def readable)
  have 4: "list_all2 (\<lambda>r a. traffic_sign_annotation box_of_points stop_index r = Inr a)
             (filter kept [sign_record (JBool True)]) []"
    by (simp add: kept_def readable)
  have 5: "py_iter (JList [sign_record (JStr ''false'')]) = Inr [sign_record (JStr ''false'')]"
    by simp
  have 6: "py_iter (JList [sign_record (JBool True)]) = Inr [sign_record (JBool True)]"
    by simp
  from parse_traffic_sign_annotation_skips_truthy [where fs = sample_files
      and annotation_path = "''text.json''" and v = "JList [sign_record (JStr ''false'')]"
      and rs = "[sign_record (JStr ''false'')]" and from_points = box_of_points
      and get_class_idx = stop_index and out = "[]"] textual 5 1 3
  have "parse_traffic_sign_annotation box_of_points stop_index sample_files ''text.json'' = Inr []"
    by simp
  moreover
  from parse_traffic_sign_annotation_skips_truthy [where fs = sample_files
      and annotation_path = "''unclear.json''" and v = "JList [sign_record (JBool True)]"
      and rs = "[sign_record (JBool True)]" and from_points = box_of_points
      and get_class_idx = stop_index and out = "[]"] unclear 6 2 4
  have "parse_traffic_sign_annotation box_of_points stop_index sample_files ''unclear.json'' = Inr []"
    by simp
  ultimately show ?thesis by simp
qed

text \<open>
  Claim C1 as stated fails: a record whose \<^verbatim>\<open>unclear\<close> value is the string
  \<^verbatim>\<open>"false"\<close>, which is not the boolean true, is skipped; the same record with the
  boolean false is not.
\<close>

theorem parse_traffic_sign_annotation_text_counterexample:
  "sample_files ''text.json'' = File (Json (JList [sign_record (JStr ''false'')])) \<and>
   property (sign_record (JStr ''false'')) ''unclear'' = Inr (JStr ''false'') \<and>
   JStr ''false'' \<noteq> JBool True \<and>
   parse_traffic_sign_annotation box_of_points stop_index sample_files ''text.json'' = Inr [] \<and>
   parse_traffic_sign_annotation box_of_points stop_index sample_files ''clear.json'' \<noteq> Inr []"
  by (simp add: parse_traffic_sign_annotation_def read_annotation_file_def sample_files_def
      sign_record_def property_def coordinates_def traffic_sign_annotation_def
      box_of_points_def stop_index_def)

text \<open>
  Claim C5. Whenever the traffic-sign parser returns, its output corresponds position by
  position to the records that were kept, and each annotation has the record's class
  label as its class, the result of the index lookup on that label as its index, and
  the record's \<^verbatim>\<open>annotation_uuid\<close> in both its \<^verbatim>\<open>annotation_uuid\<close> and its
  \<^verbatim>\<open>uuid\<close> field.
\<close>

theorem parse_traffic_sign_annotation_index_and_uuid:
  assumes "parse_traffic_sign_annotation from_points get_class_idx fs annotation_path = Inr out"
  shows "\<exists>v rs. fs annotation_path = File (Json v) \<and> py_iter v = Inr rs \<and>
           list_all2
             (\<lambda>r a. property r ''class'' = Inr (traffic_sign_class a) \<and>
                    get_class_idx (traffic_sign_class a) = Inr (traffic_sign_idx a) \<and>
                    property r ''annotation_uuid'' = Inr (annotation_uuid a) \<and>
                    property r ''annotation_uuid'' = Inr (uuid a))
             (filter kept rs) out"
proof -
  from assms obtain v rs where content: "fs annotation_path = File (Json v)"
    and records: "py_iter v = Inr rs"
    and built: "list_all2 (\<lambda>r a. traffic_sign_annotation from_points get_class_idx r = Inr a)
                  (filter kept rs) out"
    by (auto simp: parse_traffic_sign_annotation_eq_Inr)
  from built have
    "list_all2
       (\<lambda>r a. property r ''class'' = Inr (traffic_sign_class a) \<and>
              get_class_idx (traffic_sign_class a) = Inr (traffic_sign_idx a) \<and>
              property r ''annotation_uuid'' = Inr (annotation_uuid a) \<and>
              property r ''annotation_uuid'' = Inr (uuid a))
       (filter kept rs) out"
    by (rule list_all2_mono) (simp add: traffic_sign_annotation_fields(1,2,3,8))
  with content records show ?thesis by blast
qed

theorem parse_traffic_sign_annotation_index_and_uuid_witness:
  "\<exists>a. parse_traffic_sign_annotation box_of_points stop_index sample_files ''clear.json'' = Inr [a] \<and>
     property (sign_record (JBool False)) ''class'' = Inr (traffic_sign_class a) \<and>
     stop_index (traffic_sign_class a) = Inr (traffic_sign_idx a) \<and>
     traffic_sign_idx a = 7 \<and>
     annotation_uuid a = JStr ''a1'' \<and> uuid a = JStr ''a1''"
proof -
  let ?a = "\<lparr> bounding_box = JList [JList [JInt 0, JInt 0]],
             traffic_sign_class = JStr ''stop'',
             traffic_sign_idx = 7,
             occlusion_ratio = JFloat (Finite 3602879701896397 (- 55)),
             annotation_uuid = JStr ''a1'',
             electronic_sign = JBool False,
             uuid = JStr ''a1'' \<rparr>"
  have parsed: "parse_traffic_sign_annotation box_of_points stop_index sample_files ''clear.json''
      = Inr [?a]"
    by (rule sample_clear)
  from parse_traffic_sign_annotation_index_and_uuid [OF parsed]
  obtain v rs where content: "sample_files ''clear.json'' = File (Json v)"
    and records: "py_iter v = Inr rs"
    and fields: "list_all2
       (\<lambda>r a. property r ''class'' = Inr (traffic_sign_class a) \<and>
              stop_index (traffic_sign_class a) = Inr (traffic_sign_idx a) \<and>
              property r ''annotation_uuid'' = Inr (annotation_uuid a) \<and>
              property r ''annotation_uuid'' = Inr (uuid a))
       (filter kept rs) [?a]"
    by blast
  from content have "v = JList [sign_record (JBool False)]"
    by (simp add: sample_files_def)
  with records have rs: "rs = [sign_record (JBool False)]"
    by simp
  have "kept (sign_record (JBool False))"
    by (simp add: kept_def sign_record_def property_def)
  with fields rs have
    "property (sign_record (JBool False)) ''class'' = Inr (traffic_sign_class ?a) \<and>
     stop_index (traffic_sign_class ?a) = Inr (traffic_sign_idx ?a)"
    by simp
  with parsed show ?thesis by simp
qed

text \<open>
  Claim C10. A record whose \<^verbatim>\<open>unclear\<close> value tests true takes no further part in the
  parse, whatever else it holds or lacks: the outcome for a file, result or error, is the
  outcome for the file with those records removed, for every behaviour of the two
  collaborators.
\<close>

theorem unclear_records_are_not_read:
  "parse_traffic_sign_annotation from_points get_class_idx
     (fs(annotation_path := File (Json (JList rs)))) annotation_path =
   parse_traffic_sign_annotation from_points get_class_idx
     (fs(annotation_path := File (Json (JList (filter (\<lambda>r. \<not> skipped r) rs))))) annotation_path"
  by (simp add: parse_traffic_sign_annotation_def read_annotation_file_def
      traffic_sign_loop_skipped)

theorem unclear_records_are_not_read_witness:
  "skipped (bare_record (JBool True)) \<and>
   coordinates (bare_record (JBool True)) = Inl (KeyError ''geometry'') \<and>
   property (bare_record (JBool True)) ''class'' = Inl (KeyError ''class'') \<and>
   parse_traffic_sign_annotation always_raises stop_index
     (sample_files(''bare.json'' := File (Json (JList [bare_record (JBool True)])))) ''bare.json'' = Inr []"
proof -
  have s: "skipped (bare_record (JBool True))"
    by (simp add: skipped_def bare_record_def property_def)
  have "parse_traffic_sign_annotation always_raises stop_index
     (sample_files(''bare.json'' := File (Json (JList [bare_record (JBool True)])))) ''bare.json'' =
    parse_traffic_sign_annotation always_raises stop_index
     (sample_files(''bare.json'' := File (Json (JList
        (filter (\<lambda>r. \<not> skipped r) [bare_record (JBool True)]))))) ''bare.json''"
    by (rule unclear_records_are_not_read)
  also from s have "\<dots> = parse_traffic_sign_annotation always_raises stop_index
     (sample_files(''bare.json'' := File (Json (JList [])))) ''bare.json''"
    by simp
  also have "\<dots> = Inr []"
    by (simp add: parse_traffic_sign_annotation_def read_annotation_file_def)
  finally have "parse_traffic_sign_annotation always_raises stop_index
     (sample_files(''bare.json'' := File (Json (JList [bare_record (JBool True)])))) ''bare.json'' = Inr []" .
  moreover have "coordinates (bare_record (JBool True)) = Inl (KeyError ''geometry'')"
    by (simp add: coordinates_def bare_record_def)
  moreover have "property (bare_record (JBool True)) ''class'' = Inl (KeyError ''class'')"
    by (simp add: property_def bare_record_def)
  ultimately show ?thesis using s by simp
qed

section \<open>The polygon parsers on well-formed records\<close>

lemma lane_markings_loop_eq_Inr:
  assumes "\<forall>r \<in> set rs. \<exists>kvs. py_getitem r ''properties'' = Inr (JDict kvs)"
  shows "lane_markings_loop classes rs acc = Inr out \<longleftrightarrow>
     (\<exists>new. out = acc @ new \<and>
        list_all2 (\<lambda>r polygon. coordinates r = Inr polygon) (filter (selected classes) rs) new)"
  using assms
proof (induction rs arbitrary: acc)
  case Nil
  show ?case by auto
next
  case (Cons r rest)
  then obtain kvs where props: "py_getitem r ''properties'' = Inr (JDict kvs)"
    by auto
  from Cons have step: "lane_markings_loop classes rest acc' = Inr out \<longleftrightarrow>
     (\<exists>new. out = acc' @ new \<and>
        list_all2 (\<lambda>r polygon. coordinates r = Inr polygon) (filter (selected classes) rest) new)"
    for acc'
    by simp
  show ?case
  proof (cases "map_of kvs ''class''")
    case None
    with props have "\<not> selected classes r"
      by (simp add: selected_def property_def)
    with props None step [of acc] show ?thesis
      by (simp add: property_def)
  next
    case (Some label)
    with props have label: "property r ''class'' = Inr label"
      by (simp add: property_def)
    show ?thesis
    proof (cases "in_classes label classes")
      case False
      with label have "\<not> selected classes r"
        by (simp add: selected_def)
      with props Some label False step [of acc] show ?thesis
        by simp
    next
      case True
      with label have sel: "selected classes r"
        by (simp add: selected_def)
      show ?thesis
      proof (cases "coordinates r")
        case (Inl e)
        with props Some label True sel show ?thesis
          by (simp add: list_all2_Cons1)
      next
        case (Inr polygon)
        with props Some label True sel step [of "acc @ [polygon]"] show ?thesis
          by (auto simp: list_all2_Cons1)
      qed
    qed
  qed
qed

text \<open>
  Claim C3. On a file whose top-level value is an array of records that each have a
  \<^verbatim>\<open>properties\<close> object, and for every allow-list, either parser returns exactly when
  every selected record has its \<^verbatim>\<open>geometry.coordinates\<close>, and the output is then, in
  the order of the input, the unchanged coordinates of the selected records and nothing
  else. A record is selected when it has a class label that is a member of the
  allow-list; a record without a \<^verbatim>\<open>class\<close> property is not selected, so it adds
  nothing to the output and raises nothing.
\<close>

theorem polygons_of_selected_records:
  assumes content: "fs annotation_path = File (Json (JList rs))"
    and props: "\<forall>r \<in> set rs. \<exists>kvs. py_getitem r ''properties'' = Inr (JDict kvs)"
  shows "(parse_lane_markings_annotation fs annotation_path classes = Inr out \<longleftrightarrow>
            list_all2 (\<lambda>r polygon. coordinates r = Inr polygon)
              (filter (selected classes) rs) out) \<and>
         (parse_ego_road_annotation fs annotation_path classes = Inr out \<longleftrightarrow>
            list_all2 (\<lambda>r polygon. coordinates r = Inr polygon)
              (filter (selected classes) rs) out) \<and>
         (\<forall>r. selected classes r \<longleftrightarrow>
            (\<exists>label. property r ''class'' = Inr label \<and> label \<in> set (map JStr classes))) \<and>
         (\<forall>r. property r ''class'' = Inl (KeyError ''class'') \<longrightarrow> \<not> selected classes r)"
proof -
  from content props have
    "parse_lane_markings_annotation fs annotation_path classes = Inr out \<longleftrightarrow>
       list_all2 (\<lambda>r polygon. coordinates r = Inr polygon) (filter (selected classes) rs) out"
    by (simp add: parse_lane_markings_annotation_def read_annotation_file_def
        lane_markings_loop_eq_Inr)
  moreover from content props have
    "parse_ego_road_annotation fs annotation_path classes = Inr out \<longleftrightarrow>
       list_all2 (\<lambda>r polygon. coordinates r = Inr polygon) (filter (selected classes) rs) out"
    by (simp add: parse_ego_road_annotation_def read_annotation_file_def ego_road_loop_eq
        lane_markings_loop_eq_Inr)
  moreover have "selected classes r \<longleftrightarrow>
      (\<exists>label. property r ''class'' = Inr label \<and> label \<in> set (map JStr classes))" for r
    by (cases "property r ''class''") (simp_all add: selected_def in_classes_def)
  moreover have "property r ''class'' = Inl (KeyError ''class'') \<longrightarrow> \<not> selected classes r" for r
    by (simp add: selected_def)
  ultimately show ?thesis by blast
qed

lemma lane_records_props:
  "\<forall>r \<in> set lane_records. \<exists>kvs. py_getitem r ''properties'' = Inr (JDict kvs)"
  by (simp add: lane_records_def polygon_record_def)

lemma lane_records_selected_lm:
  "filter (selected [''lm_dashed'', ''lm_solid'']) lane_records =
     [polygon_record [(''class'', JStr ''lm_dashed'')] 1,
      polygon_record [(''class'', JStr ''lm_solid'')] 5]"
  by (simp add: lane_records_def polygon_record_def selected_def property_def in_classes_def)

lemma lane_records_selected_ego:
  "filter (selected [''EgoRoad_Road'']) lane_records =
     [polygon_record [(''class'', JStr ''EgoRoad_Road'')] 4]"
  by (simp add: lane_records_def polygon_record_def selected_def property_def in_classes_def)

lemma coordinates_polygon_record:
  "coordinates (polygon_record props n) = Inr (JList [JList [JInt n, JInt n]])"
  by (simp add: coordinates_def polygon_record_def)

theorem polygons_of_selected_records_witness:
  "property (polygon_record [] 2) ''class'' = Inl (KeyError ''class'') \<and>
   parse_lane_markings_annotation sample_files ''lanes.json'' [''lm_dashed'', ''lm_solid''] =
     Inr [JList [JList [JInt 1, JInt 1]], JList [JList [JInt 5, JInt 5]]] \<and>
   parse_ego_road_annotation sample_files ''lanes.json'' [''EgoRoad_Road''] =
     Inr [JList [JList [JInt 4, JInt 4]]]"
proof -
  have content: "sample_files ''lanes.json'' = File (Json (JList lane_records))"
    by (simp add: sample_files_def)
  have lm: "list_all2 (\<lambda>r polygon. coordinates r = Inr polygon)
      (filter (selected [''lm_dashed'', ''lm_solid'']) lane_records)
      [JList [JList [JInt 1, JInt 1]], JList [JList [JInt 5, JInt 5]]]"
    by (simp add: lane_records_selected_lm coordinates_polygon_record)
  have ego: "list_all2 (\<lambda>r polygon. coordinates r = Inr polygon)
      (filter (selected [''EgoRoad_Road'']) lane_records)
      [JList [JList [JInt 4, JInt 4]]]"
    by (simp add: lane_records_selected_ego coordinates_polygon_record)
  from polygons_of_selected_records [where fs = sample_files
      and annotation_path = "''lanes.json''" and rs = lane_records
      and classes = "[''lm_dashed'', ''lm_solid'']"
      and out = "[JList [JList [JInt 1, JInt 1]], JList [JList [JInt 5, JInt 5]]]"]
    content lane_records_props lm
  have "parse_lane_markings_annotation sample_files ''lanes.json'' [''lm_dashed'', ''lm_solid''] =
     Inr [JList [JList [JInt 1, JInt 1]], JList [JList [JInt 5, JInt 5]]]"
    by blast
  moreover
  from polygons_of_selected_records [where fs = sample_files
      and annotation_path = "''lanes.json''" and rs = lane_records
      and classes = "[''EgoRoad_Road'']" and out = "[JList [JList [JInt 4, JInt 4]]]"]
    content lane_records_props ego
  have "parse_ego_road_annotation sample_files ''lanes.json'' [''EgoRoad_Road''] =
     Inr [JList [JList [JInt 4, JInt 4]]]"
    by blast
  moreover have "property (polygon_record [] 2) ''class'' = Inl (KeyError ''class'')"
    by (simp add: property_def polygon_record_def)
  ultimately show ?thesis by simp
qed

section \<open>Repeated calls\<close>




























section \<open>The default lists\<close>

text \<open>
  Claim C9, as amended. A call of either polygon parser that leaves \<^verbatim>\<open>classes\<close> out
  is bound to the one list object that the function has held since its definition, the
  same object at every call and not a copy of it. The parsers only read the list: such
  a call returns what a call that passes that object returns, which is the parse with
  the object's current contents, and these are the documented defaults when the module
  has just been loaded.
\<close>

theorem default_allow_list_shared:
  "bind_classes lane_markings_defaults None = lane_markings_defaults \<and>
   bind_classes ego_road_defaults None = ego_road_defaults \<and>
   call_parse_lane_markings_annotation rt annotation_path None =
     call_parse_lane_markings_annotation rt annotation_path (Some lane_markings_defaults) \<and>
   call_parse_ego_road_annotation rt annotation_path None =
     call_parse_ego_road_annotation rt annotation_path (Some ego_road_defaults) \<and>
   call_parse_lane_markings_annotation rt annotation_path None =
     parse_lane_markings_annotation (files rt) annotation_path (heap rt lane_markings_defaults) \<and>
   call_parse_ego_road_annotation rt annotation_path None =
     parse_ego_road_annotation (files rt) annotation_path (heap rt ego_road_defaults) \<and>
   module_heap lane_markings_defaults = [''lm_dashed'', ''lm_solid''] \<and>
   module_heap ego_road_defaults = [''EgoRoad_Road'']"
  by (simp add: bind_classes_def call_parse_lane_markings_annotation_def
      call_parse_ego_road_annotation_def module_heap_def lane_markings_defaults_def
      ego_road_defaults_def)

lemma sample_lanes_default:
  "call_parse_lane_markings_annotation sample_runtime ''lanes.json'' None =
     Inr [JList [JList [JInt 1, JInt 1]], JList [JList [JInt 5, JInt 5]]]"
  by (simp add: call_parse_lane_markings_annotation_def parse_lane_markings_annotation_def
      read_annotation_file_def sample_runtime_def sample_files_def lane_records_def
      polygon_record_def property_def coordinates_def in_classes_def bind_classes_def
      module_heap_def lane_markings_defaults_def ego_road_defaults_def)

theorem default_allow_list_shared_witness:
  "call_parse_lane_markings_annotation sample_runtime ''lanes.json''
     (Some lane_markings_defaults) =
     Inr [JList [JList [JInt 1, JInt 1]], JList [JList [JInt 5, JInt 5]]]"
  using default_allow_list_shared [of sample_runtime "''lanes.json''"] sample_lanes_default
  by simp

text \<open>
  Claim C9 as stated fails: the list that a call without \<^verbatim>\<open>classes\<close> receives is the
  function's own default object, so an element appended to the list that one such call
  received is seen by the next such call, which then returns one more polygon.
\<close>

theorem default_allow_list_counterexample:
  "bind_classes lane_markings_defaults None = lane_markings_defaults \<and>
   call_parse_lane_markings_annotation sample_runtime ''lanes.json'' None =
     Inr [JList [JList [JInt 1, JInt 1]], JList [JList [JInt 5, JInt 5]]] \<and>
   call_parse_lane_markings_annotation
     (list_append (bind_classes lane_markings_defaults None) ''other'' sample_runtime)
     ''lanes.json'' None =
     Inr [JList [JList [JInt 1, JInt 1]], JList [JList [JInt 3, JInt 3]],
          JList [JList [JInt 5, JInt 5]]]"
  by (simp add: call_parse_lane_markings_annotation_def parse_lane_markings_annotation_def
      read_annotation_file_def sample_runtime_def sample_files_def lane_records_def
      polygon_record_def property_def coordinates_def in_classes_def bind_classes_def
      module_heap_def lane_markings_defaults_def ego_road_defaults_def list_append_def)

end
